theory Spec2Isabelle
  imports Complex_Main "HOL-Library.Log_Nat" "HOL-Library.Sublist"
begin

section \<open>Python values used by file\_analyzer\_pro.py\<close>

text \<open>
  A Python \<open>str\<close> is a sequence of Unicode code points, so it is modelled as a list of
  natural numbers (the code points), not as a list of 8-bit characters: \<open>len\<close>,
  \<open>count\<close>, \<open>split\<close> and \<open>splitlines\<close> all work on code points. \<open>py\<close> reads an ASCII
  literal of the source as such a string.
\<close>

type_synonym pystr = "nat list"

definition py :: "string \<Rightarrow> pystr" where
  "py s = map of_char s"

text \<open>The exceptions that the modelled code can raise and does not catch by itself.\<close>

datatype py_error = ZeroDivisionError | OverflowError

subsection \<open>String builtins\<close>

text \<open>\<open>str.isspace\<close> on one code point: the Unicode white space of CPython.\<close>

definition isspace :: "nat \<Rightarrow> bool" where
  "isspace c \<longleftrightarrow>
     (9 \<le> c \<and> c \<le> 13) \<or> (28 \<le> c \<and> c \<le> 32) \<or> c = 133 \<or> c = 160 \<or> c = 5760 \<or>
     (8192 \<le> c \<and> c \<le> 8202) \<or> c = 8232 \<or> c = 8233 \<or> c = 8239 \<or> c = 8287 \<or> c = 12288"

text \<open>The line boundaries of \<open>str.splitlines\<close>.\<close>

definition islinebreak :: "nat \<Rightarrow> bool" where
  "islinebreak c \<longleftrightarrow>
     (10 \<le> c \<and> c \<le> 13) \<or> (28 \<le> c \<and> c \<le> 30) \<or> c = 133 \<or> c = 8232 \<or> c = 8233"

text \<open>\<open>s.count('\n')\<close>: the number of occurrences of one code point.\<close>

definition count_char :: "pystr \<Rightarrow> nat \<Rightarrow> nat" where
  "count_char s c = length (filter (\<lambda>x. x = c) s)"

text \<open>
  \<open>s.split()\<close> with no separator: skip a run of white space, take the run of other
  characters that follows as one token, and repeat until the string is used up.
\<close>

function split :: "pystr \<Rightarrow> pystr list" where
  "split s =
     (let t = dropWhile isspace s
      in if t = [] then []
         else takeWhile (\<lambda>c. \<not> isspace c) t # split (dropWhile (\<lambda>c. \<not> isspace c) t))"
  by pat_completeness auto
termination
proof (relation "measure length")
  show "wf (measure length)" by simp
next
  fix s t :: pystr
  assume t: "t = dropWhile isspace s" and ne: "t \<noteq> []"
  have "length (dropWhile (\<lambda>c. \<not> isspace c) t) < length t"
  proof (cases t)
    case Nil
    with ne show ?thesis by simp
  next
    case (Cons a u)
    have "dropWhile isspace s = a # u"
      using t Cons by simp
    then have "\<not> isspace a"
      by (metis hd_dropWhile list.sel(1) list.distinct(1))
    then have "dropWhile (\<lambda>c. \<not> isspace c) t = dropWhile (\<lambda>c. \<not> isspace c) u"
      using Cons by simp
    then show ?thesis
      using Cons length_dropWhile_le [of "\<lambda>c. \<not> isspace c" u] by simp
  qed
  moreover have "length t \<le> length s"
    using t length_dropWhile_le [of isspace s] by simp
  ultimately show "(dropWhile (\<lambda>c. \<not> isspace c) t, s) \<in> measure length"
    by simp
qed

declare split.simps [simp del]

text \<open>
  \<open>s.splitlines()\<close>: cut at every line boundary, \<open>\r\n\<close> counting as one; a line break
  at the very end does not open a further, empty line.
\<close>

definition after_break :: "pystr \<Rightarrow> pystr" where
  "after_break r =
     (case r of
        [] \<Rightarrow> []
      | c # r' \<Rightarrow>
          (if c = 13 then (case r' of [] \<Rightarrow> [] | d # r'' \<Rightarrow> (if d = 10 then r'' else r'))
           else r'))"

function splitlines :: "pystr \<Rightarrow> pystr list" where
  "splitlines s =
     (if s = [] then []
      else takeWhile (\<lambda>c. \<not> islinebreak c) s
           # splitlines (after_break (dropWhile (\<lambda>c. \<not> islinebreak c) s)))"
  by pat_completeness auto
termination
proof (relation "measure length")
  show "wf (measure length)" by simp
next
  fix s :: pystr
  assume ne: "s \<noteq> []"
  let ?r = "dropWhile (\<lambda>c. \<not> islinebreak c) s"
  have "length (after_break ?r) < length s"
  proof (cases "?r = []")
    case True
    have "after_break [] = []" by (simp add: after_break_def)
    then show ?thesis unfolding True using ne by simp
  next
    case False
    then have "length (after_break ?r) < length ?r"
      by (auto simp: after_break_def split: list.splits)
    also have "\<dots> \<le> length s" by (rule length_dropWhile_le)
    finally show ?thesis .
  qed
  then show "(after_break ?r, s) \<in> measure length" by simp
qed

declare splitlines.simps [simp del]

text \<open>\<open>s.strip()\<close>: white space removed at both ends.\<close>

definition strip :: "pystr \<Rightarrow> pystr" where
  "strip s = rev (dropWhile isspace (rev (dropWhile isspace s)))"

text \<open>\<open>sep.join(xs)\<close>.\<close>

fun join :: "pystr \<Rightarrow> pystr list \<Rightarrow> pystr" where
  "join sep [] = []"
| "join sep [x] = x"
| "join sep (x # y # ys) = x @ sep @ join sep (y # ys)"

text \<open>\<open>s.endswith(t)\<close>.\<close>

definition endswith :: "pystr \<Rightarrow> pystr \<Rightarrow> bool" where
  "endswith s t \<longleftrightarrow> suffix t s"

subsection \<open>Numbers\<close>

text \<open>
  A Python \<open>int\<close> is an unbounded integer. A Python \<open>float\<close> is an IEEE 754 binary64
  number; a finite one is modelled by the rational number it denotes (the sign of zero is
  not kept). \<open>binary64\<close> rounds a rational to the nearest such number, ties to the even
  significand, with the exponent unbounded above: a result of magnitude \<open>2 ^ 1024\<close> or
  more, that is of exponent 1024 or more, is the overflow that Python reports as
  \<open>OverflowError\<close>.
\<close>

datatype pynum = PyInt int | PyFloat rat

definition pow2 :: "int \<Rightarrow> rat" where
  "pow2 e = (if 0 \<le> e then 2 ^ nat e else 1 / 2 ^ nat (- e))"

definition round_half_even :: "rat \<Rightarrow> int" where
  "round_half_even x =
     (let f = \<lfloor>x\<rfloor>; d = x - of_int f
      in if d < 1 / 2 then f else if 1 / 2 < d then f + 1 else if even f then f else f + 1)"

text \<open>For \<open>x > 0\<close>, the exponent \<open>e\<close> with \<open>2 ^ e \<le> x < 2 ^ (e + 1)\<close>.\<close>

definition floor_log2 :: "rat \<Rightarrow> int" where
  "floor_log2 x = (if 1 \<le> x then bitlen \<lfloor>x\<rfloor> - 1 else - bitlen (\<lceil>1 / x\<rceil> - 1))"

definition binary64 :: "rat \<Rightarrow> rat" where
  "binary64 x =
     (if x = 0 then 0
      else let e = max (floor_log2 \<bar>x\<bar>) (- 1022); u = pow2 (e - 52)
           in sgn x * of_int (round_half_even (\<bar>x\<bar> / u)) * u)"

definition to_float :: "rat \<Rightarrow> py_error + rat" where
  "to_float x =
     (let r = binary64 x
      in if r \<noteq> 0 \<and> 1024 \<le> floor_log2 \<bar>r\<bar> then Inl OverflowError else Inr r)"

text \<open>\<open>a / b\<close> on two ints: true division, correctly rounded.\<close>

definition py_truediv :: "int \<Rightarrow> int \<Rightarrow> py_error + rat" where
  "py_truediv a b = (if b = 0 then Inl ZeroDivisionError else to_float (of_int a / of_int b))"

text \<open>\<open>str(n)\<close> for an int: its decimal digits, with a minus sign when negative.\<close>

fun digits :: "nat \<Rightarrow> pystr" where
  "digits n = (if n < 10 then [48 + n] else digits (n div 10) @ [48 + n mod 10])"

declare digits.simps [simp del]

definition str_int :: "int \<Rightarrow> pystr" where
  "str_int i = (if i < 0 then 45 # digits (nat (- i)) else digits (nat i))"

text \<open>
  \<open>f"{v:.2f}"\<close>: the exact value of the float rounded to two decimals, ties to even.
  An int is converted to a float first, which can overflow.
\<close>

definition fmt_2f_float :: "rat \<Rightarrow> pystr" where
  "fmt_2f_float x =
     (let n = nat (round_half_even (\<bar>x\<bar> * 100))
      in (if x < 0 then [45] else []) @ digits (n div 100) @ [46]
         @ [48 + (n mod 100) div 10, 48 + n mod 10])"

fun fmt_2f :: "pynum \<Rightarrow> py_error + pystr" where
  "fmt_2f (PyFloat x) = Inr (fmt_2f_float x)"
| "fmt_2f (PyInt i) =
     (case to_float (of_int i) of Inl e \<Rightarrow> Inl e | Inr x \<Rightarrow> Inr (fmt_2f_float x))"

section \<open>The data model\<close>

text \<open>
  \<open>analyze_file\<close> builds a dict \<open>results\<close> whose keys are among \<open>lines\<close>, \<open>words\<close>,
  \<open>chars\<close> (each with an int) and \<open>stats\<close> (with a nested dict from names to numbers).
  A dict keeps its insertion order, which the text and CSV output follow, so a dict is a
  list of entries in insertion order. An entry of \<open>results\<close> carries its key in its
  constructor and the value of the type the program stores under that key.
\<close>

datatype metric =
    Lines int
  | Words int
  | Chars int
  | Stats "(pystr \<times> pynum) list"

fun key_of :: "metric \<Rightarrow> pystr" where
  "key_of (Lines _) = py ''lines''"
| "key_of (Words _) = py ''words''"
| "key_of (Chars _) = py ''chars''"
| "key_of (Stats _) = py ''stats''"

type_synonym file_metrics = "metric list"

text \<open>The dict from file names to their metrics, in insertion order.\<close>

type_synonym result_set = "(pystr \<times> file_metrics) list"

section \<open>analyze\_file\<close>

text \<open>
  Lines 74 to 86: the \<open>stats\<close> dict of a content. The three values are computed in the
  order of the dict display, so the first exception raised is the one that propagates.
\<close>

definition stats_dict :: "pystr \<Rightarrow> py_error + (pystr \<times> pynum) list" where
  "stats_dict content =
     (let lines = splitlines content; words = split content
      in case py_truediv (int (sum_list (map length lines))) (int (max (length lines) 1)) of
           Inl e \<Rightarrow> Inl e
         | Inr avg_line \<Rightarrow>
             (case py_truediv (int (sum_list (map length words))) (int (max (length words) 1)) of
                Inl e \<Rightarrow> Inl e
              | Inr avg_word \<Rightarrow>
                  Inr [(py ''avg_line_length'', PyFloat avg_line),
                       (py ''avg_words_length'', PyFloat avg_word),
                       (py ''empty_lines'',
                        PyInt (int (length (filter (\<lambda>line. strip line = []) lines))))]))"

text \<open>
  Lines 59 to 86: from the content read and the requested modes to the \<open>results\<close>
  dict. \<open>modes\<close> is the list of mode names as given on the command line.
\<close>

definition wants :: "pystr list \<Rightarrow> string \<Rightarrow> bool" where
  "wants modes m \<longleftrightarrow> py m \<in> set modes \<or> py ''all'' \<in> set modes"

definition analyze_content :: "pystr \<Rightarrow> pystr list \<Rightarrow> py_error + file_metrics" where
  "analyze_content content modes =
     (let r1 = (if wants modes ''lines'' then [Lines (int (count_char content 10) + 1)] else []);
          r2 = r1 @ (if wants modes ''words'' then [Words (int (length (split content)))] else []);
          r3 = r2 @ (if wants modes ''chars'' then [Chars (int (length content))] else [])
      in if py ''stats'' \<in> set modes
         then (case stats_dict content of Inl e \<Rightarrow> Inl e | Inr st \<Rightarrow> Inr (r3 @ [Stats st]))
         else Inr r3)"

text \<open>
  The operating system, as far as the program looks at it. \<open>read_file f enc\<close> stands for
  \<open>open(f, 'r', encoding=enc)\<close> followed by \<open>read()\<close>: the decoded content, or the
  message of the exception raised. \<open>write_file f data\<close> stands for writing the output
  file: the message of the exception raised, if any. \<open>walk\<close> gives the pairs of
  \<open>os.walk\<close> (root and file names), \<open>glob\<close> is \<open>glob.glob\<close> with its \<open>recursive\<close>
  flag, \<open>path_join\<close> is \<open>os.path.join\<close>, and \<open>set_list xs\<close> is \<open>list(set(xs))\<close>,
  whose order the language leaves open.
\<close>

record os_env =
  isfile :: "pystr \<Rightarrow> bool"
  isdir :: "pystr \<Rightarrow> bool"
  walk :: "pystr \<Rightarrow> (pystr \<times> pystr list) list"
  glob :: "pystr \<Rightarrow> bool \<Rightarrow> pystr list"
  path_join :: "pystr \<Rightarrow> pystr \<Rightarrow> pystr"
  read_file :: "pystr \<Rightarrow> pystr \<Rightarrow> pystr + pystr"
  write_file :: "pystr \<Rightarrow> pystr \<Rightarrow> pystr option"
  set_list :: "pystr list \<Rightarrow> pystr list"

text \<open>Truth value of an optional string: \<open>None\<close> and the empty string are false.\<close>

fun truthy :: "pystr option \<Rightarrow> bool" where
  "truthy None = False"
| "truthy (Some s) = (s \<noteq> [])"

text \<open>Lines 44 and 45: the encoding used, \<open>utf-8\<close> when none is given.\<close>

definition encoding_or_default :: "pystr option \<Rightarrow> pystr" where
  "encoding_or_default encoding =
     (case encoding of None \<Rightarrow> py ''utf-8'' | Some e \<Rightarrow> (if e = [] then py ''utf-8'' else e))"

text \<open>The apostrophe that the messages put around a file name.\<close>

definition apostrophe :: pystr where
  "apostrophe = [39]"

definition msg_not_exist :: "pystr \<Rightarrow> pystr" where
  "msg_not_exist filename =
     py ''Error: File '' @ apostrophe @ filename @ apostrophe @ py '' does not exist.''"

definition msg_read_error :: "pystr \<Rightarrow> pystr \<Rightarrow> pystr" where
  "msg_read_error filename e =
     py ''Error reading file '' @ apostrophe @ filename @ apostrophe @ py '': '' @ e"

definition msg_analyzing :: "pystr \<Rightarrow> pystr list \<Rightarrow> pystr" where
  "msg_analyzing filename modes =
     py ''Analyzing '' @ apostrophe @ filename @ apostrophe @ py '' in ''
       @ join (py '', '') modes @ py '' modes(s)...''"

text \<open>
  \<open>analyze_file\<close>, lines 22 to 89. The result is the list of lines printed, and either
  the exception that escapes or the value returned: \<open>None\<close>, or the dict with the one key
  \<open>filename\<close>, given here as the pair of the key and its value.
\<close>

definition analyze_file ::
  "os_env \<Rightarrow> pystr \<Rightarrow> pystr list \<Rightarrow> bool \<Rightarrow> pystr option
     \<Rightarrow> pystr list \<times> (py_error + (pystr \<times> file_metrics) option)" where
  "analyze_file env filename modes verbose encoding =
     (if \<not> isfile env filename then ([msg_not_exist filename], Inr None)
      else case read_file env filename (encoding_or_default encoding) of
             Inl e \<Rightarrow> ([msg_read_error filename e], Inr None)
           | Inr content \<Rightarrow>
               (let printed = (if verbose then [msg_analyzing filename modes] else [])
                in case analyze_content content modes of
                     Inl err \<Rightarrow> (printed, Inl err)
                   | Inr results \<Rightarrow> (printed, Inr (Some (filename, results)))))"

section \<open>formatted\_output\<close>

definition header :: "pystr list" where
  "header = [py ''filename'', py ''lines'', py ''words'', py ''chars'']"

text \<open>
  The entries of a \<open>results\<close> dict that hold an int, as pairs of key and value.
  \<open>data.get(item, '')\<close> is only asked for the items of \<open>header[1:]\<close>, none of which is
  \<open>stats\<close>, so it is a lookup among these entries.
\<close>

fun int_items :: "metric \<Rightarrow> (pystr \<times> int) list" where
  "int_items (Lines n) = [(py ''lines'', n)]"
| "int_items (Words n) = [(py ''words'', n)]"
| "int_items (Chars n) = [(py ''chars'', n)]"
| "int_items (Stats _) = []"

text \<open>\<open>str(data.get(item, ''))\<close> for an item of \<open>header[1:]\<close>.\<close>

definition csv_cell :: "file_metrics \<Rightarrow> pystr \<Rightarrow> pystr" where
  "csv_cell data item =
     (case map_of (concat (map int_items data)) item of None \<Rightarrow> [] | Some n \<Rightarrow> str_int n)"

text \<open>Lines 111 to 114: the row of one file, built by appending to \<open>row\<close>.\<close>

definition csv_row :: "pystr \<times> file_metrics \<Rightarrow> pystr" where
  "csv_row fd =
     join (py '','') (foldl (\<lambda>row item. row @ [csv_cell (snd fd) item]) [fst fd] (tl header))"

text \<open>Lines 107 to 115.\<close>

definition csv_output :: "result_set \<Rightarrow> pystr" where
  "csv_output results =
     join [10] (foldl (\<lambda>output fd. output @ [csv_row fd]) [join (py '','') header] results)"

text \<open>
  \<open>str.capitalize\<close>: the first character in upper case, the others in lower case. Only
  the ASCII letters are mapped here; the program applies it to the four keys of
  \<open>key_of\<close> only.
\<close>

definition upper :: "nat \<Rightarrow> nat" where
  "upper c = (if 97 \<le> c \<and> c \<le> 122 then c - 32 else c)"

definition lower :: "nat \<Rightarrow> nat" where
  "lower c = (if 65 \<le> c \<and> c \<le> 90 then c + 32 else c)"

fun capitalize :: "pystr \<Rightarrow> pystr" where
  "capitalize [] = []"
| "capitalize (c # cs) = upper c # map lower cs"

text \<open>Lines 124 and 125: one line for each item of the nested dict.\<close>

fun stats_lines :: "(pystr \<times> pynum) list \<Rightarrow> py_error + pystr list" where
  "stats_lines [] = Inr []"
| "stats_lines ((stat_key, stat_value) # rest) =
     (case fmt_2f stat_value of
        Inl e \<Rightarrow> Inl e
      | Inr v \<Rightarrow>
          (case stats_lines rest of
             Inl e \<Rightarrow> Inl e
           | Inr ls \<Rightarrow> Inr ((py ''    '' @ stat_key @ py '': '' @ v) # ls)))"

text \<open>Lines 122 to 127: the lines of one entry of a \<open>results\<close> dict.\<close>

fun metric_lines :: "metric \<Rightarrow> py_error + pystr list" where
  "metric_lines (Stats d) =
     (case stats_lines d of
        Inl e \<Rightarrow> Inl e
      | Inr ls \<Rightarrow> Inr ((py '' '' @ capitalize (key_of (Stats d)) @ py '':'') # ls))"
| "metric_lines (Lines n) = Inr [py ''  '' @ capitalize (key_of (Lines n)) @ py '': '' @ str_int n]"
| "metric_lines (Words n) = Inr [py ''  '' @ capitalize (key_of (Words n)) @ py '': '' @ str_int n]"
| "metric_lines (Chars n) = Inr [py ''  '' @ capitalize (key_of (Chars n)) @ py '': '' @ str_int n]"

fun data_lines :: "file_metrics \<Rightarrow> py_error + pystr list" where
  "data_lines [] = Inr []"
| "data_lines (m # ms) =
     (case metric_lines m of
        Inl e \<Rightarrow> Inl e
      | Inr ls \<Rightarrow> (case data_lines ms of Inl e \<Rightarrow> Inl e | Inr ls' \<Rightarrow> Inr (ls @ ls')))"

text \<open>Lines 119 to 127: the lines of all files.\<close>

fun text_lines :: "result_set \<Rightarrow> py_error + pystr list" where
  "text_lines [] = Inr []"
| "text_lines ((filename, data) # rest) =
     (case data_lines data of
        Inl e \<Rightarrow> Inl e
      | Inr ls \<Rightarrow>
          (case text_lines rest of
             Inl e \<Rightarrow> Inl e
           | Inr ls' \<Rightarrow>
               Inr ((py ''Results for '' @ apostrophe @ filename @ apostrophe @ py '':'')
                    # ls @ ls')))"

text \<open>
  \<open>formatted_output\<close>, lines 91 to 128. \<open>json.dumps(results, indent=2)\<close> belongs to
  the standard library and is a parameter.
\<close>

definition formatted_output ::
  "(result_set \<Rightarrow> pystr) \<Rightarrow> result_set \<Rightarrow> pystr \<Rightarrow> py_error + pystr" where
  "formatted_output json_dumps results format_type =
     (if format_type = py ''json'' then Inr (json_dumps results)
      else if format_type = py ''csv'' then Inr (csv_output results)
      else (case text_lines results of Inl e \<Rightarrow> Inl e | Inr ls \<Rightarrow> Inr (join [10] ls)))"

section \<open>main\<close>

text \<open>
  The parsed command line, lines 141 to 169; \<open>output_file\<close> is \<open>args.output\<close>.
\<close>

record args =
  files :: "pystr list"
  mode :: "pystr list"
  verbose :: bool
  recursive :: bool
  format :: pystr
  output_file :: "pystr option"
  encoding :: "pystr option"
  ext :: "pystr option"

text \<open>Lines 172 to 190: the list \<open>all_files\<close> before duplicates are removed.\<close>

definition resolve_files :: "os_env \<Rightarrow> args \<Rightarrow> pystr list" where
  "resolve_files env a =
     concat (map (\<lambda>file_pattern.
       if isdir env file_pattern \<and> recursive a
       then concat (map (\<lambda>(root, fs).
              map (path_join env root)
                (filter (\<lambda>file. \<not> (truthy (ext a) \<and> \<not> endswith file (the (ext a)))) fs))
              (walk env file_pattern))
       else (let matched_files = glob env file_pattern (recursive a)
             in if truthy (ext a) then filter (\<lambda>f. endswith f (the (ext a))) matched_files
                else matched_files))
       (files a))"

text \<open>
  \<open>all_results.update(result)\<close> for a dict \<open>result\<close> with one key: the value of a key
  already present is replaced in place, a new key is added at the end.
\<close>

definition dict_update :: "result_set \<Rightarrow> pystr \<times> file_metrics \<Rightarrow> result_set" where
  "dict_update all_results r =
     (if fst r \<in> fst ` set all_results
      then map (\<lambda>kv. if fst kv = fst r then r else kv) all_results
      else all_results @ [r])"

text \<open>
  Lines 200 to 203: the loop over the files, from the lines printed so far and the
  results collected so far. An exception that escapes \<open>analyze_file\<close> ends the loop.
\<close>

fun analyze_files ::
  "os_env \<Rightarrow> pystr list \<Rightarrow> bool \<Rightarrow> pystr option \<Rightarrow> pystr list
     \<Rightarrow> pystr list \<times> result_set \<Rightarrow> pystr list \<times> (py_error + result_set)" where
  "analyze_files env modes verb enc [] (printed, all_results) = (printed, Inr all_results)"
| "analyze_files env modes verb enc (file # rest) (printed, all_results) =
     (case analyze_file env file modes verb enc of
        (p, Inl e) \<Rightarrow> (printed @ p, Inl e)
      | (p, Inr None) \<Rightarrow> analyze_files env modes verb enc rest (printed @ p, all_results)
      | (p, Inr (Some r)) \<Rightarrow>
          analyze_files env modes verb enc rest (printed @ p, dict_update all_results r))"

text \<open>
  What a run of \<open>main\<close> leaves behind: the lines printed, the files written (path and
  data), and the exception that ended the run, if one escaped.
\<close>

record run =
  printed_lines :: "pystr list"
  written :: "(pystr \<times> pystr) list"
  raised :: "py_error option"

text \<open>Lines 208 to 221: the formatted output goes to the output file or to the console.\<close>

definition emit :: "os_env \<Rightarrow> pystr option \<Rightarrow> pystr \<Rightarrow> pystr list \<times> (pystr \<times> pystr) list" where
  "emit env out text =
     (if truthy out
      then (case write_file env (the out) text of
              None \<Rightarrow>
                ([py ''Results saved to '' @ apostrophe @ the out @ apostrophe], [(the out, text)])
            | Some e \<Rightarrow> ([py ''Error saving results: '' @ e, text], []))
      else ([text], []))"

text \<open>\<open>main\<close>, lines 171 to 221, from the parsed command line.\<close>

definition main :: "(result_set \<Rightarrow> pystr) \<Rightarrow> os_env \<Rightarrow> args \<Rightarrow> run" where
  "main json_dumps env a =
     (let all_files = set_list env (resolve_files env a)
      in if all_files = []
         then \<lparr>printed_lines = [py ''Error: No matching files found.''], written = [],
               raised = None\<rparr>
         else (case analyze_files env (mode a) (verbose a) (encoding a) all_files ([], []) of
                 (p, Inl e) \<Rightarrow> \<lparr>printed_lines = p, written = [], raised = Some e\<rparr>
               | (p, Inr all_results) \<Rightarrow>
                   (case formatted_output json_dumps all_results (format a) of
                      Inl e \<Rightarrow> \<lparr>printed_lines = p, written = [], raised = Some e\<rparr>
                    | Inr text \<Rightarrow>
                        (let (q, w) = emit env (output_file a) text
                         in \<lparr>printed_lines = p @ q, written = w, raised = None\<rparr>))))"

section \<open>Notions used to state the properties\<close>

text \<open>\<open>results[k]\<close> for one of the int keys, and \<open>results['stats']\<close>, when present.\<close>

definition get_int :: "file_metrics \<Rightarrow> string \<Rightarrow> int option" where
  "get_int results k = map_of (concat (map int_items results)) (py k)"

fun stats_items :: "metric \<Rightarrow> (pystr \<times> pynum) list list" where
  "stats_items (Stats d) = [d]"
| "stats_items _ = []"

definition get_stats :: "file_metrics \<Rightarrow> (pystr \<times> pynum) list option" where
  "get_stats results = (case concat (map stats_items results) of [] \<Rightarrow> None | d # _ \<Rightarrow> Some d)"

text \<open>The choices of \<open>--mode\<close>, line 143.\<close>

definition mode_choices :: "pystr list" where
  "mode_choices = [py ''lines'', py ''words'', py ''chars'', py ''all'', py ''stats'']"

text \<open>
  The lines of a text in the sense of the newline character alone: every newline ends a
  line, and what follows the last newline is one more line when it is not empty.
\<close>

fun lines_from :: "pystr \<Rightarrow> pystr \<Rightarrow> pystr list" where
  "lines_from cur [] = (if cur = [] then [] else [cur])"
| "lines_from cur (c # cs) =
     (if c = 10 then cur # lines_from [] cs else lines_from (cur @ [c]) cs)"

definition newline_lines :: "pystr \<Rightarrow> pystr list" where
  "newline_lines s = lines_from [] s"

text \<open>
  The number of maximal runs of characters that are not white space: the positions
  holding such a character at the start of the text or right after a white space.
\<close>

fun tokens_from :: "bool \<Rightarrow> pystr \<Rightarrow> nat" where
  "tokens_from prev [] = 0"
| "tokens_from prev (c # cs) =
     (if isspace c then tokens_from True cs
      else (if prev then 1 else 0) + tokens_from False cs)"

definition count_tokens :: "pystr \<Rightarrow> nat" where
  "count_tokens s = tokens_from True s"

text \<open>
  A small operating system to run the program on: a readable text file \<open>a.txt\<close>, a
  file \<open>b.bin\<close> that exists and cannot be decoded, and nothing else.
\<close>

definition example_env :: os_env where
  "example_env =
     \<lparr>isfile = (\<lambda>f. f = py ''a.txt'' \<or> f = py ''b.bin''),
      isdir = (\<lambda>f. False),
      walk = (\<lambda>d. []),
      glob = (\<lambda>p r. if p = py ''*.*'' then [py ''a.txt'', py ''b.bin''] else
                      if p = py ''a.txt'' then [py ''a.txt''] else []),
      path_join = (\<lambda>a b. a @ py ''/'' @ b),
      read_file = (\<lambda>f e. if f = py ''a.txt'' then Inr (py ''hi there'')
                          else Inl (py ''invalid start byte'')),
      write_file = (\<lambda>f d. None),
      set_list = remdups\<rparr>"

section \<open>Properties of the analysis\<close>

lemma py_keys_distinct:
  "py ''lines'' \<noteq> py ''words''" "py ''lines'' \<noteq> py ''chars''" "py ''words'' \<noteq> py ''chars''"
  "py ''words'' \<noteq> py ''lines''" "py ''chars'' \<noteq> py ''lines''" "py ''chars'' \<noteq> py ''words''"
  "py ''stats'' \<noteq> py ''lines''" "py ''stats'' \<noteq> py ''words''" "py ''stats'' \<noteq> py ''chars''"
  "py ''lines'' \<noteq> py ''stats''" "py ''words'' \<noteq> py ''stats''" "py ''chars'' \<noteq> py ''stats''"
  by (simp_all add: py_def)

lemma length_lines_from:
  "length (lines_from cur s) =
     count_char s 10
     + (if s = [] then (if cur = [] then 0 else 1) else if last s = 10 then 0 else 1)"
  by (induction s arbitrary: cur) (auto simp: count_char_def)

lemma get_int_lines:
  assumes "analyze_content content modes = Inr results"
  shows "get_int results ''lines'' =
           (if wants modes ''lines'' then Some (int (count_char content 10) + 1) else None)"
  using assms
  by (auto simp: analyze_content_def get_int_def Let_def py_keys_distinct
           split: if_splits sum.splits)

lemma get_int_words:
  assumes "analyze_content content modes = Inr results"
  shows "get_int results ''words'' =
           (if wants modes ''words'' then Some (int (length (split content))) else None)"
  using assms
  by (auto simp: analyze_content_def get_int_def Let_def py_keys_distinct
           split: if_splits sum.splits)

lemma tokens_True_dropWhile: "tokens_from True (dropWhile isspace s) = tokens_from True s"
  by (induction s) auto

lemma tokens_False_dropWhile_not:
  "tokens_from False (dropWhile (\<lambda>c. \<not> isspace c) s) = tokens_from False s"
  by (induction s) auto

lemma tokens_False_True:
  "s = [] \<or> isspace (hd s) \<Longrightarrow> tokens_from False s = tokens_from True s"
  by (cases s) auto

lemma length_split: "length (split s) = tokens_from True s"
proof (induction s rule: split.induct)
  case (1 s)
  let ?t = "dropWhile isspace s"
  show ?case
  proof (cases "?t = []")
    case True
    have "tokens_from True ?t = 0" unfolding True by simp
    then have "tokens_from True s = 0" by (simp add: tokens_True_dropWhile)
    moreover have "split s = []" using True by (simp add: split.simps [of s])
    ultimately show ?thesis by simp
  next
    case False
    then obtain a u where t: "?t = a # u" by (cases ?t) auto
    then have a: "\<not> isspace a" by (metis hd_dropWhile list.sel(1) list.distinct(1))
    let ?r = "dropWhile (\<lambda>c. \<not> isspace c) ?t"
    have ih: "length (split ?r) = tokens_from True ?r" using 1 False by simp
    have "?r = [] \<or> isspace (hd ?r)"
      using hd_dropWhile [of "\<lambda>c. \<not> isspace c" ?t] by blast
    then have "tokens_from True ?r = tokens_from False ?r"
      by (rule tokens_False_True [symmetric])
    also have "\<dots> = tokens_from False ?t" by (rule tokens_False_dropWhile_not)
    finally have r: "tokens_from True ?r = tokens_from False ?t" .
    have "tokens_from True ?t = 1 + tokens_from False u" using t a by simp
    moreover have "tokens_from False ?t = tokens_from False u" using t a by simp
    ultimately have "tokens_from True s = 1 + tokens_from True ?r"
      using r tokens_True_dropWhile [of s] by simp
    then show ?thesis using False ih by (simp add: split.simps [of s] Let_def)
  qed
qed

lemma tokens_from_append:
  "tokens_from p (a @ b) =
     tokens_from p a + tokens_from (if a = [] then p else isspace (last a)) b"
  by (induction a arbitrary: p) auto

lemma tokens_from_spaces:
  "list_all isspace w \<Longrightarrow> tokens_from p (w @ b) = tokens_from (p \<or> w \<noteq> []) b"
  by (induction w arbitrary: p) auto

lemma tokens_from_spaces_hd:
  "list_all isspace w \<Longrightarrow> b \<noteq> [] \<Longrightarrow> isspace (hd b)
     \<Longrightarrow> tokens_from p (w @ b) = tokens_from p b"
  by (induction w arbitrary: p) (auto simp: neq_Nil_conv)

lemma tokens_insert:
  assumes w: "list_all isspace w"
    and adj: "a = [] \<or> b = [] \<or> isspace (last a) \<or> isspace (hd b)"
  shows "tokens_from True (a @ w @ b) = tokens_from True (a @ b)"
proof -
  let ?q = "if a = [] then True else isspace (last a)"
  have "tokens_from ?q (w @ b) = tokens_from ?q b"
  proof (cases "b = []")
    case True
    then show ?thesis using w tokens_from_spaces [of w ?q "[]"] by simp
  next
    case False
    show ?thesis
    proof (cases "?q")
      case True
      then show ?thesis using w tokens_from_spaces [of w ?q b] by simp
    next
      case q: False
      then have "isspace (hd b)" using adj False by (auto split: if_splits)
      then show ?thesis using w False by (rule_tac tokens_from_spaces_hd)
    qed
  qed
  then show ?thesis by (simp add: tokens_from_append)
qed

text \<open>
  Claim C1. When \<open>lines\<close> or \<open>all\<close> is among the modes, the \<open>lines\<close> value that
  \<open>analyze_file\<close> computes is the number of newline characters of the content plus
  one. For a non-empty content that does not end in a newline this is the number of its
  lines; for a content that ends in a newline it is one more than that.
\<close>

theorem lines_metric:
  assumes "wants modes ''lines''"
    and "analyze_content content modes = Inr results"
  shows "get_int results ''lines'' = Some (int (count_char content 10) + 1)
       \<and> (content \<noteq> [] \<and> last content \<noteq> 10
            \<longrightarrow> get_int results ''lines'' = Some (int (length (newline_lines content))))
       \<and> (content \<noteq> [] \<and> last content = 10
            \<longrightarrow> get_int results ''lines'' = Some (int (length (newline_lines content)) + 1))"
  using assms get_int_lines [OF assms(2)]
  by (simp add: newline_lines_def length_lines_from)

theorem lines_metric_witness:
  "wants [py ''lines''] ''lines''
   \<and> analyze_content (py ''a'' @ [10] @ py ''b'') [py ''lines''] = Inr [Lines 2]
   \<and> get_int [Lines 2] ''lines'' = Some 2
   \<and> length (newline_lines (py ''a'' @ [10] @ py ''b'')) = 2
   \<and> analyze_content (py ''a'' @ [10]) [py ''lines''] = Inr [Lines 2]
   \<and> length (newline_lines (py ''a'' @ [10])) = 1"
proof -
  have w: "wants [py ''lines''] ''lines''" by (simp add: wants_def)
  have a1: "analyze_content (py ''a'' @ [10] @ py ''b'') [py ''lines''] = Inr [Lines 2]"
    by (simp add: analyze_content_def wants_def py_def count_char_def)
  have a2: "analyze_content (py ''a'' @ [10]) [py ''lines''] = Inr [Lines 2]"
    by (simp add: analyze_content_def wants_def py_def count_char_def)
  have n1: "py ''a'' @ [10] @ py ''b'' \<noteq> [] \<and> last (py ''a'' @ [10] @ py ''b'') \<noteq> 10"
    by (simp add: py_def)
  have n2: "py ''a'' @ [10] \<noteq> [] \<and> last (py ''a'' @ [10]) = 10"
    by (simp add: py_def)
  have g: "get_int [Lines 2] ''lines'' = Some 2" by (simp add: get_int_def)
  from lines_metric [OF w a1] n1 g have l1: "length (newline_lines (py ''a'' @ [10] @ py ''b'')) = 2"
    by simp
  from lines_metric [OF w a2] n2 g have l2: "length (newline_lines (py ''a'' @ [10])) = 1"
    by simp
  from w a1 a2 g l1 l2 show ?thesis by blast
qed

text \<open>
  Claim C6. When \<open>words\<close> or \<open>all\<close> is among the modes, the \<open>words\<close> value is the
  number of maximal runs of characters that are not white space, and it does not change
  when white space \<open>w\<close> is put in at the start, at the end, or next to white space that
  is already there.
\<close>

theorem words_metric:
  assumes "wants modes ''words''"
    and "analyze_content (a @ b) modes = Inr results"
    and "analyze_content (a @ w @ b) modes = Inr results'"
    and "list_all isspace w"
    and "a = [] \<or> b = [] \<or> isspace (last a) \<or> isspace (hd b)"
  shows "get_int results ''words'' = Some (int (count_tokens (a @ b)))
       \<and> get_int results' ''words'' = get_int results ''words''"
  using assms(1) get_int_words [OF assms(2)] get_int_words [OF assms(3)]
    tokens_insert [OF assms(4) assms(5)]
  by (simp add: length_split count_tokens_def)

theorem words_metric_witness:
  "wants [py ''words''] ''words''
   \<and> analyze_content (py ''x '' @ py ''y'') [py ''words''] = Inr [Words 2]
   \<and> analyze_content (py ''x '' @ [9, 10] @ py ''y'') [py ''words''] = Inr [Words 2]
   \<and> list_all isspace [9, 10]
   \<and> isspace (last (py ''x ''))
   \<and> count_tokens (py ''x '' @ py ''y'') = 2"
proof -
  have w: "wants [py ''words''] ''words''" by (simp add: wants_def)
  have a1: "analyze_content (py ''x '' @ py ''y'') [py ''words''] = Inr [Words 2]"
    by (simp add: analyze_content_def wants_def py_def split.simps isspace_def)
  have a2: "analyze_content (py ''x '' @ [9, 10] @ py ''y'') [py ''words''] = Inr [Words 2]"
    by (simp add: analyze_content_def wants_def py_def split.simps isspace_def)
  have s: "list_all isspace [9, 10]" by (simp add: isspace_def)
  have l: "isspace (last (py ''x ''))" by (simp add: isspace_def py_def)
  then have adj: "py ''x '' = [] \<or> py ''y'' = [] \<or> isspace (last (py ''x '')) \<or> isspace (hd (py ''y''))"
    by blast
  have g: "get_int [Words 2] ''words'' = Some 2" by (simp add: get_int_def py_keys_distinct)
  from words_metric [OF w a1 a2 s adj] g have "count_tokens (py ''x '' @ py ''y'') = 2"
    by simp
  with w a1 a2 s l show ?thesis by blast
qed

lemma to_float_not_zerodiv: "to_float x \<noteq> Inl ZeroDivisionError"
  by (simp add: to_float_def Let_def)

lemma py_truediv_max_not_zerodiv: "py_truediv a (int (max n 1)) \<noteq> Inl ZeroDivisionError"
  by (simp add: py_truediv_def to_float_not_zerodiv)

lemma stats_dict_not_zerodiv: "stats_dict content \<noteq> Inl ZeroDivisionError"
  using py_truediv_max_not_zerodiv
  by (auto simp: stats_dict_def Let_def split: sum.splits)

lemma analyze_content_not_zerodiv: "analyze_content content modes \<noteq> Inl ZeroDivisionError"
  using stats_dict_not_zerodiv [of content]
  by (auto simp: analyze_content_def Let_def split: sum.splits)

lemma to_float_0: "to_float 0 = Inr 0"
  by (simp add: to_float_def binary64_def)

lemma stats_dict_empty:
  "stats_dict [] =
     Inr [(py ''avg_line_length'', PyFloat 0), (py ''avg_words_length'', PyFloat 0),
          (py ''empty_lines'', PyInt 0)]"
  by (simp add: stats_dict_def splitlines.simps split.simps py_truediv_def to_float_0)

lemma get_stats_ints [simp]:
  "get_stats [] = None" "get_stats (Lines n # r) = get_stats r"
  "get_stats (Words n # r) = get_stats r" "get_stats (Chars n # r) = get_stats r"
  "get_stats (Stats d # r) = Some d"
  by (simp_all add: get_stats_def)

text \<open>
  Claim C2. For an empty content and modes that include \<open>stats\<close>, the analysis succeeds
  and the stats dict holds \<open>avg_line_length\<close> 0, \<open>avg_words_length\<close> 0 and
  \<open>empty_lines\<close> 0. With no line and with no word the divisor is 1, a divisor
  \<open>max(n, 1)\<close> never raises \<open>ZeroDivisionError\<close>, and so neither the stats nor the
  whole analysis raise it, whatever the content and the modes.
\<close>

theorem empty_stats:
  "(py ''stats'' \<in> set modes \<longrightarrow>
      (\<exists>results. analyze_content [] modes = Inr results
         \<and> get_stats results =
             Some [(py ''avg_line_length'', PyFloat 0), (py ''avg_words_length'', PyFloat 0),
                   (py ''empty_lines'', PyInt 0)]))
   \<and> int (max (length (splitlines [])) 1) = 1
   \<and> int (max (length (split [])) 1) = 1
   \<and> py_truediv a (int (max n 1)) \<noteq> Inl ZeroDivisionError
   \<and> stats_dict content \<noteq> Inl ZeroDivisionError
   \<and> analyze_content content modes' \<noteq> Inl ZeroDivisionError"
proof -
  have "get_stats results = Some d"
    if "py ''stats'' \<in> set modes" and "analyze_content [] modes = Inr results"
      and "stats_dict [] = Inr d" for results d
    using that
    by (auto simp: analyze_content_def Let_def split: if_splits)
  moreover have "\<exists>results. analyze_content [] modes = Inr results"
    if "py ''stats'' \<in> set modes"
    using that by (simp add: analyze_content_def Let_def stats_dict_empty)
  ultimately show ?thesis
    using stats_dict_empty py_truediv_max_not_zerodiv stats_dict_not_zerodiv
      analyze_content_not_zerodiv
    by (auto simp: splitlines.simps split.simps)
qed

theorem empty_stats_witness:
  "py ''stats'' \<in> set [py ''stats'']
   \<and> analyze_content [] [py ''stats''] =
       Inr [Stats [(py ''avg_line_length'', PyFloat 0), (py ''avg_words_length'', PyFloat 0),
                   (py ''empty_lines'', PyInt 0)]]"
proof -
  have m: "py ''stats'' \<in> set [py ''stats'']" by simp
  from empty_stats [of "[py ''stats'']"] m obtain results where
    r: "analyze_content [] [py ''stats''] = Inr results"
    and g: "get_stats results =
             Some [(py ''avg_line_length'', PyFloat 0), (py ''avg_words_length'', PyFloat 0),
                   (py ''empty_lines'', PyInt 0)]"
    by blast
  have "\<exists>d. results = [Stats d]"
    using r by (auto simp: analyze_content_def Let_def wants_def py_def split: sum.splits)
  then obtain d where "results = [Stats d]" by blast
  with g r m show ?thesis by (simp add: get_stats_def)
qed

lemma analyze_file_Some:
  assumes "analyze_file env filename modes verb enc = (p, Inr (Some (f, results)))"
  shows "f = filename \<and> isfile env filename
       \<and> (\<exists>content. read_file env filename (encoding_or_default enc) = Inr content
             \<and> analyze_content content modes = Inr results)"
  using assms
  by (auto simp: analyze_file_def Let_def split: if_splits sum.splits)

lemma keys_analyze_content:
  assumes "analyze_content content modes = Inr results"
  shows "map key_of results =
           (if wants modes ''lines'' then [py ''lines''] else [])
           @ (if wants modes ''words'' then [py ''words''] else [])
           @ (if wants modes ''chars'' then [py ''chars''] else [])
           @ (if py ''stats'' \<in> set modes then [py ''stats''] else [])"
  using assms
  by (auto simp: analyze_content_def Let_def split: if_splits sum.splits)

text \<open>
  Claim C3. When \<open>analyze_file\<close> returns a result, its keys are, in this order,
  \<open>lines\<close>, \<open>words\<close> and \<open>chars\<close>, each present exactly when its mode or \<open>all\<close>
  was requested, and \<open>stats\<close>, present exactly when \<open>stats\<close> was requested. So
  \<open>all\<close> alone gives the three counts and no stats, and a non-empty list of modes taken
  from the choices of the command line gives a result that is not empty.
\<close>

theorem result_keys:
  assumes "analyze_file env filename modes verb enc = (p, Inr (Some (f, results)))"
  shows "map key_of results =
           (if py ''lines'' \<in> set modes \<or> py ''all'' \<in> set modes then [py ''lines''] else [])
           @ (if py ''words'' \<in> set modes \<or> py ''all'' \<in> set modes then [py ''words''] else [])
           @ (if py ''chars'' \<in> set modes \<or> py ''all'' \<in> set modes then [py ''chars''] else [])
           @ (if py ''stats'' \<in> set modes then [py ''stats''] else [])
       \<and> (py ''stats'' \<in> set (map key_of results) \<longleftrightarrow> py ''stats'' \<in> set modes)
       \<and> (modes = [py ''all''] \<longrightarrow> map key_of results = [py ''lines'', py ''words'', py ''chars''])
       \<and> (modes \<noteq> [] \<and> set modes \<subseteq> set mode_choices \<longrightarrow> results \<noteq> [])"
proof -
  from analyze_file_Some [OF assms] obtain content where
    "analyze_content content modes = Inr results" by blast
  note k = keys_analyze_content [OF this]
  have 1: "py ''stats'' \<in> set (map key_of results) \<longleftrightarrow> py ''stats'' \<in> set modes"
    unfolding k by (simp add: py_keys_distinct)
  have 2: "map key_of results = [py ''lines'', py ''words'', py ''chars'']" if "modes = [py ''all'']"
    unfolding k using that by (simp add: wants_def py_def)
  have 3: "results \<noteq> []" if "modes \<noteq> []" "set modes \<subseteq> set mode_choices"
  proof -
    from that obtain m where "m \<in> set modes" "m \<in> set mode_choices"
      by (cases modes) auto
    then have "map key_of results \<noteq> []"
      unfolding k by (auto simp: mode_choices_def wants_def)
    then show ?thesis by simp
  qed
  from k 1 2 3 show ?thesis by (simp add: wants_def)
qed

theorem result_keys_witness:
  "analyze_file example_env (py ''a.txt'') [py ''all''] False None
     = ([], Inr (Some (py ''a.txt'', [Lines 1, Words 2, Chars 8])))
   \<and> [py ''all''] \<noteq> [] \<and> set [py ''all''] \<subseteq> set mode_choices
   \<and> map key_of [Lines 1, Words 2, Chars 8] = [py ''lines'', py ''words'', py ''chars'']
   \<and> py ''stats'' \<notin> set (map key_of [Lines 1, Words 2, Chars 8])"
proof -
  have a: "analyze_file example_env (py ''a.txt'') [py ''all''] False None
     = ([], Inr (Some (py ''a.txt'', [Lines 1, Words 2, Chars 8])))"
    by (simp add: analyze_file_def example_env_def encoding_or_default_def analyze_content_def
        wants_def py_def count_char_def split.simps isspace_def)
  have m: "[py ''all''] \<noteq> [] \<and> set [py ''all''] \<subseteq> set mode_choices"
    by (simp add: mode_choices_def)
  have n: "py ''stats'' \<notin> set [py ''all'']" by (simp add: py_def)
  from result_keys [OF a] m n a show ?thesis by simp
qed

lemma foldl_append_map: "foldl (\<lambda>acc x. acc @ [f x]) acc xs = acc @ map f xs"
  by (induction xs arbitrary: acc) auto

lemma join_header: "join (py '','') header = py ''filename,lines,words,chars''"
  by (simp add: header_def py_def)

lemma csv_cell_get_int:
  "csv_cell data (py k) = (case get_int data k of None \<Rightarrow> [] | Some n \<Rightarrow> str_int n)"
  by (simp add: csv_cell_def get_int_def)

lemma csv_row_eq:
  "csv_row (f, data) =
     f @ py '','' @ csv_cell data (py ''lines'') @ py '','' @ csv_cell data (py ''words'')
       @ py '','' @ csv_cell data (py ''chars'')"
  by (simp add: csv_row_def header_def)

lemma csv_output_eq:
  "csv_output results = join [10] (py ''filename,lines,words,chars'' # map csv_row results)"
  by (simp add: csv_output_def foldl_append_map join_header)

lemma int_items_filter:
  "concat (map int_items (filter (\<lambda>m. stats_items m = []) data)) = concat (map int_items data)"
proof (induction data)
  case Nil
  then show ?case by simp
next
  case (Cons m ms)
  then show ?case by (cases m) auto
qed

lemma csv_row_no_stats:
  "csv_row (f, filter (\<lambda>m. stats_items m = []) data) = csv_row (f, data)"
  by (simp add: csv_row_def csv_cell_def int_items_filter)

lemma str_int_examples: "str_int 3 = py ''3''" "str_int 5 = py ''5''" "str_int 20 = py ''20''"
  by (simp_all add: str_int_def digits.simps py_def)

text \<open>
  Claim C5. The CSV output is the header row \<open>filename,lines,words,chars\<close> followed by
  one row for each file, in the order of the result set; a row is the file name and the
  values of \<open>lines\<close>, \<open>words\<close> and \<open>chars\<close>, each left empty when its key is absent.
  The stats entries have no effect on the output. A file with lines 3, words 5 and chars
  20 gives the row \<open>text.txt,3,5,20\<close>, and a file with stats alone gives \<open>text.txt,,,\<close>.
\<close>

theorem csv_format:
  "formatted_output json_dumps results (py ''csv'') =
     Inr (join [10] (py ''filename,lines,words,chars''
            # map (\<lambda>(f, data).
                    f @ py '','' @ (case get_int data ''lines'' of None \<Rightarrow> [] | Some n \<Rightarrow> str_int n)
                      @ py '','' @ (case get_int data ''words'' of None \<Rightarrow> [] | Some n \<Rightarrow> str_int n)
                      @ py '','' @ (case get_int data ''chars'' of None \<Rightarrow> [] | Some n \<Rightarrow> str_int n))
                results))
   \<and> formatted_output json_dumps
        (map (\<lambda>(f, data). (f, filter (\<lambda>m. stats_items m = []) data)) results) (py ''csv'')
       = formatted_output json_dumps results (py ''csv'')
   \<and> formatted_output json_dumps [(py ''text.txt'', [Lines 3, Words 5, Chars 20])] (py ''csv'')
       = Inr (py ''filename,lines,words,chars'' @ [10] @ py ''text.txt,3,5,20'')
   \<and> formatted_output json_dumps [(py ''text.txt'', [Stats d])] (py ''csv'')
       = Inr (py ''filename,lines,words,chars'' @ [10] @ py ''text.txt,,,'')"
proof -
  have c: "py ''csv'' \<noteq> py ''json''" by (simp add: py_def)
  have row: "csv_row = (\<lambda>(f, data).
                    f @ py '','' @ (case get_int data ''lines'' of None \<Rightarrow> [] | Some n \<Rightarrow> str_int n)
                      @ py '','' @ (case get_int data ''words'' of None \<Rightarrow> [] | Some n \<Rightarrow> str_int n)
                      @ py '','' @ (case get_int data ''chars'' of None \<Rightarrow> [] | Some n \<Rightarrow> str_int n))"
    by (rule ext) (simp add: csv_row_eq csv_cell_get_int split: prod.splits)
  have 1: "formatted_output json_dumps results (py ''csv'') =
             Inr (join [10] (py ''filename,lines,words,chars'' # map csv_row results))"
    using c by (simp add: formatted_output_def csv_output_eq)
  have "csv_row \<circ> (\<lambda>(f, data). (f, filter (\<lambda>m. stats_items m = []) data)) = csv_row"
    by (rule ext) (simp add: csv_row_no_stats split: prod.splits)
  then have 2: "formatted_output json_dumps
        (map (\<lambda>(f, data). (f, filter (\<lambda>m. stats_items m = []) data)) results) (py ''csv'')
       = formatted_output json_dumps results (py ''csv'')"
    using c by (simp add: formatted_output_def csv_output_eq)
  have 3: "formatted_output json_dumps [(py ''text.txt'', [Lines 3, Words 5, Chars 20])] (py ''csv'')
       = Inr (py ''filename,lines,words,chars'' @ [10] @ py ''text.txt,3,5,20'')"
    using c
    by (simp add: formatted_output_def csv_output_eq csv_row_eq csv_cell_def py_keys_distinct
        str_int_examples) (simp add: py_def)
  have 4: "formatted_output json_dumps [(py ''text.txt'', [Stats d])] (py ''csv'')
       = Inr (py ''filename,lines,words,chars'' @ [10] @ py ''text.txt,,,'')"
    using c
    by (simp add: formatted_output_def csv_output_eq csv_row_eq csv_cell_def) (simp add: py_def)
  from 1 2 3 4 show ?thesis unfolding row by blast
qed

lemma set_digits: "set (digits n) \<subseteq> {48..57}"
proof (induction n rule: digits.induct)
  case (1 n)
  show ?case
  proof (cases "n < 10")
    case True
    then show ?thesis by (simp add: digits.simps [of n])
  next
    case False
    have "n mod 10 < 10" by simp
    then have "48 + n mod 10 \<in> {48..57}" by auto
    with 1 False show ?thesis by (simp add: digits.simps [of n])
  qed
qed

lemma count_char_append [simp]: "count_char (a @ b) c = count_char a c + count_char b c"
  by (simp add: count_char_def)

lemma count_char_notin: "c \<notin> set s \<Longrightarrow> count_char s c = 0"
  by (induction s) (auto simp: count_char_def)

lemma set_str_int: "set (str_int i) \<subseteq> insert 45 {48..57}"
  using set_digits by (auto simp: str_int_def)

lemma count_char_csv_cell:
  assumes "c = 44 \<or> c = 10"
  shows "count_char (csv_cell data item) c = 0"
proof -
  have "c \<notin> set (str_int n)" for n
    using set_str_int [of n] assms by auto
  then have "count_char (str_int n) c = 0" for n
    by (rule count_char_notin)
  moreover have "count_char [] c = 0" by (simp add: count_char_def)
  ultimately show ?thesis
    by (simp add: csv_cell_def split: option.splits)
qed

text \<open>
  Claim C10. The CSV output neither quotes nor escapes. The row of a file starts with the
  file name as it is, followed by a comma, and holds three commas and no newline besides
  those of the file name. So the file name \<open>a,b.txt\<close> gives a row of five fields under
  a header of four, and a file name holding a newline gives a row that spans two lines.
\<close>

theorem csv_no_quoting:
  "prefix (f @ py '','') (csv_row (f, data))
   \<and> count_char (csv_row (f, data)) 44 = count_char f 44 + 3
   \<and> count_char (csv_row (f, data)) 10 = count_char f 10
   \<and> formatted_output json_dumps [(py ''a,b.txt'', [Lines 3, Words 5, Chars 20])] (py ''csv'')
       = Inr (py ''filename,lines,words,chars'' @ [10] @ py ''a,b.txt,3,5,20'')
   \<and> count_char (py ''a,b.txt,3,5,20'') 44 = 4
   \<and> count_char (py ''filename,lines,words,chars'') 44 = 3
   \<and> formatted_output json_dumps [(py ''a'' @ [10] @ py ''b.txt'', [Lines 3, Words 5, Chars 20])]
        (py ''csv'')
       = Inr (py ''filename,lines,words,chars'' @ [10] @ py ''a'' @ [10] @ py ''b.txt,3,5,20'')"
proof -
  have c: "py ''csv'' \<noteq> py ''json''" by (simp add: py_def)
  have comma: "count_char (py '','') 44 = 1" "count_char (py '','') 10 = 0"
    by (simp_all add: py_def count_char_def)
  have 1: "prefix (f @ py '','') (csv_row (f, data))"
    by (simp add: csv_row_eq)
  have 2: "count_char (csv_row (f, data)) 44 = count_char f 44 + 3"
    by (simp add: csv_row_eq count_char_csv_cell comma)
  have 3: "count_char (csv_row (f, data)) 10 = count_char f 10"
    by (simp add: csv_row_eq count_char_csv_cell comma)
  have 4: "formatted_output json_dumps [(py ''a,b.txt'', [Lines 3, Words 5, Chars 20])] (py ''csv'')
       = Inr (py ''filename,lines,words,chars'' @ [10] @ py ''a,b.txt,3,5,20'')"
    using c
    by (simp add: formatted_output_def csv_output_eq csv_row_eq csv_cell_def py_keys_distinct
        str_int_examples) (simp add: py_def)
  have 5: "count_char (py ''a,b.txt,3,5,20'') 44 = 4"
    "count_char (py ''filename,lines,words,chars'') 44 = 3"
    by (simp_all add: py_def count_char_def)
  have 6: "formatted_output json_dumps [(py ''a'' @ [10] @ py ''b.txt'', [Lines 3, Words 5, Chars 20])]
        (py ''csv'')
       = Inr (py ''filename,lines,words,chars'' @ [10] @ py ''a'' @ [10] @ py ''b.txt,3,5,20'')"
    using c
    by (simp add: formatted_output_def csv_output_eq csv_row_eq csv_cell_def py_keys_distinct
        str_int_examples) (simp add: py_def)
  from 1 2 3 4 5 6 show ?thesis by blast
qed

lemma fmt_2f_zero: "fmt_2f (PyFloat 0) = Inr (py ''0.00'')" "fmt_2f (PyInt 0) = Inr (py ''0.00'')"
  by (simp_all add: fmt_2f_float_def round_half_even_def to_float_0 digits.simps py_def)

lemma capitalize_keys:
  "capitalize (py ''lines'') = py ''Lines''" "capitalize (py ''words'') = py ''Words''"
  "capitalize (py ''chars'') = py ''Chars''" "capitalize (py ''stats'') = py ''Stats''"
  by (simp_all add: py_def upper_def lower_def)

lemma text_not_json_csv: "py ''text'' \<noteq> py ''json''" "py ''text'' \<noteq> py ''csv''"
  by (simp_all add: py_def)

text \<open>
  Claim C4. The text output of the result that \<open>analyze_file\<close> gives for an empty file
  \<open>text.txt\<close> under the modes \<open>lines\<close> and \<open>stats\<close>: the header line of the file, the
  scalar line with two spaces, the sub-header of the stats with one space only, and the
  lines of the stats with four spaces and two decimals. The sub-header is not the line
  with two spaces.
\<close>

theorem text_stats_header:
  "analyze_content [] [py ''lines'', py ''stats'']
     = Inr [Lines 1,
            Stats [(py ''avg_line_length'', PyFloat 0), (py ''avg_words_length'', PyFloat 0),
                   (py ''empty_lines'', PyInt 0)]]
   \<and> formatted_output json_dumps
        [(py ''text.txt'',
          [Lines 1,
           Stats [(py ''avg_line_length'', PyFloat 0), (py ''avg_words_length'', PyFloat 0),
                  (py ''empty_lines'', PyInt 0)]])]
        (py ''text'')
       = Inr (join [10]
               [py ''Results for '' @ apostrophe @ py ''text.txt'' @ apostrophe @ py '':'',
                py ''  Lines: 1'',
                py '' Stats:'',
                py ''    avg_line_length: 0.00'',
                py ''    avg_words_length: 0.00'',
                py ''    empty_lines: 0.00''])
   \<and> py '' Stats:'' \<noteq> py ''  Stats:''"
proof -
  have 1: "analyze_content [] [py ''lines'', py ''stats'']
     = Inr [Lines 1,
            Stats [(py ''avg_line_length'', PyFloat 0), (py ''avg_words_length'', PyFloat 0),
                   (py ''empty_lines'', PyInt 0)]]"
    by (simp add: analyze_content_def stats_dict_empty wants_def count_char_def py_keys_distinct)
       (simp add: py_def)
  have s: "str_int 1 = py ''1''" by (simp add: str_int_def digits.simps py_def)
  have 2: "formatted_output json_dumps
        [(py ''text.txt'',
          [Lines 1,
           Stats [(py ''avg_line_length'', PyFloat 0), (py ''avg_words_length'', PyFloat 0),
                  (py ''empty_lines'', PyInt 0)]])]
        (py ''text'')
       = Inr (join [10]
               [py ''Results for '' @ apostrophe @ py ''text.txt'' @ apostrophe @ py '':'',
                py ''  Lines: 1'',
                py '' Stats:'',
                py ''    avg_line_length: 0.00'',
                py ''    avg_words_length: 0.00'',
                py ''    empty_lines: 0.00''])"
    by (simp add: formatted_output_def text_not_json_csv fmt_2f_zero capitalize_keys s
          del: fmt_2f.simps)
       (simp add: py_def)
  have 3: "py '' Stats:'' \<noteq> py ''  Stats:''" by (simp add: py_def)
  from 1 2 3 show ?thesis by blast
qed

lemma analyze_file_None_iff:
  "snd (analyze_file env f modes verb enc) = Inr None \<longleftrightarrow>
     \<not> isfile env f \<or> isl (read_file env f (encoding_or_default enc))"
  by (auto simp: analyze_file_def Let_def split: sum.splits)

lemma analyze_file_key:
  "analyze_file env f modes verb enc = (p, Inr (Some r)) \<Longrightarrow> fst r = f"
  by (auto simp: analyze_file_def Let_def split: if_splits sum.splits)

lemma keys_dict_update: "fst ` set (dict_update rs r) = insert (fst r) (fst ` set rs)"
  by (auto simp: dict_update_def image_iff)

lemma analyze_files_skip:
  assumes "snd (analyze_file env f modes verb enc) = Inr None"
  shows "analyze_files env modes verb enc (f # rest) (printed, acc) =
           analyze_files env modes verb enc rest
             (printed @ fst (analyze_file env f modes verb enc), acc)"
  using assms by (cases "analyze_file env f modes verb enc") auto

lemma analyze_files_keys:
  "analyze_files env modes verb enc fs (printed, acc) = (out, Inr rs) \<Longrightarrow>
     fst ` set rs =
       fst ` set acc \<union> {f \<in> set fs. snd (analyze_file env f modes verb enc) \<noteq> Inr None}"
proof (induction fs arbitrary: printed acc)
  case Nil
  then show ?case by simp
next
  case (Cons f fs)
  obtain p r where a: "analyze_file env f modes verb enc = (p, r)"
    by (cases "analyze_file env f modes verb enc") auto
  show ?case
  proof (cases r)
    case (Inl e)
    with Cons.prems a show ?thesis by simp
  next
    case (Inr v)
    show ?thesis
    proof (cases v)
      case None
      with Cons.prems a Inr
      have "analyze_files env modes verb enc fs (printed @ p, acc) = (out, Inr rs)" by simp
      from Cons.IH [OF this] a Inr None show ?thesis by auto
    next
      case (Some kv)
      with Cons.prems a Inr
      have "analyze_files env modes verb enc fs (printed @ p, dict_update acc kv) = (out, Inr rs)"
        by simp
      from Cons.IH [OF this] a Inr Some analyze_file_key [of env f modes verb enc p kv]
      show ?thesis by (auto simp: keys_dict_update)
    qed
  qed
qed

text \<open>
  Claim C8. \<open>analyze_file\<close> returns \<open>None\<close> exactly when the path is not an existing
  regular file or reading it under the encoding raises. In the first case it prints the
  message that the file does not exist, in the second the message with the cause. The
  loop of \<open>main\<close> then goes on with the remaining files, the results collected so far
  unchanged, and the keys of the result set at the end of the loop are those it started
  with and the files for which \<open>analyze_file\<close> did not return \<open>None\<close>.
\<close>

theorem analyze_file_failure:
  "(snd (analyze_file env f modes verb enc) = Inr None \<longleftrightarrow>
      \<not> isfile env f \<or> isl (read_file env f (encoding_or_default enc)))
   \<and> (\<not> isfile env f \<longrightarrow>
        analyze_file env f modes verb enc = ([msg_not_exist f], Inr None))
   \<and> (isfile env f \<and> read_file env f (encoding_or_default enc) = Inl e \<longrightarrow>
        analyze_file env f modes verb enc = ([msg_read_error f e], Inr None))
   \<and> (snd (analyze_file env f modes verb enc) = Inr None \<longrightarrow>
        analyze_files env modes verb enc (f # rest) (printed, acc) =
          analyze_files env modes verb enc rest
            (printed @ fst (analyze_file env f modes verb enc), acc))
   \<and> (analyze_files env modes verb enc fs (printed, acc) = (out, Inr rs) \<longrightarrow>
        fst ` set rs =
          fst ` set acc \<union> {g \<in> set fs. snd (analyze_file env g modes verb enc) \<noteq> Inr None})"
  using analyze_file_None_iff [of env f modes verb enc]
    analyze_files_skip [of env f modes verb enc rest printed acc]
    analyze_files_keys [of env modes verb enc fs printed acc out rs]
  by (simp add: analyze_file_def)

theorem analyze_file_failure_witness:
  "\<not> isfile example_env (py ''c.txt'')
   \<and> isfile example_env (py ''b.bin'')
   \<and> read_file example_env (py ''b.bin'') (encoding_or_default None) = Inl (py ''invalid start byte'')
   \<and> analyze_file example_env (py ''c.txt'') [py ''lines''] False None
       = ([msg_not_exist (py ''c.txt'')], Inr None)
   \<and> analyze_file example_env (py ''b.bin'') [py ''lines''] False None
       = ([msg_read_error (py ''b.bin'') (py ''invalid start byte'')], Inr None)
   \<and> analyze_files example_env [py ''lines''] False None
        [py ''c.txt'', py ''b.bin'', py ''a.txt''] ([], [])
       = ([msg_not_exist (py ''c.txt''),
           msg_read_error (py ''b.bin'') (py ''invalid start byte'')],
          Inr [(py ''a.txt'', [Lines 1])])
   \<and> fst ` set [(py ''a.txt'', [Lines (1::int)])] = {py ''a.txt''}"
proof -
  have c: "\<not> isfile example_env (py ''c.txt'')"
    by (simp add: example_env_def py_def)
  have b: "isfile example_env (py ''b.bin'')"
    by (simp add: example_env_def)
  have rb: "read_file example_env (py ''b.bin'') (encoding_or_default None)
              = Inl (py ''invalid start byte'')"
    by (simp add: example_env_def py_def)
  have a: "analyze_file example_env (py ''a.txt'') [py ''lines''] False None
             = ([], Inr (Some (py ''a.txt'', [Lines 1])))"
    by (simp add: analyze_file_def example_env_def encoding_or_default_def analyze_content_def
        wants_def py_def count_char_def)
  note t1 = analyze_file_failure [of example_env "py ''c.txt''" "[py ''lines'']" False None]
  note t2 = analyze_file_failure [of example_env "py ''b.bin''" "[py ''lines'']" False None
      "py ''invalid start byte''"]
  have fc: "analyze_file example_env (py ''c.txt'') [py ''lines''] False None
       = ([msg_not_exist (py ''c.txt'')], Inr None)"
    using t1 c by blast
  have fb: "analyze_file example_env (py ''b.bin'') [py ''lines''] False None
       = ([msg_read_error (py ''b.bin'') (py ''invalid start byte'')], Inr None)"
    using t2 b rb by blast
  have run: "analyze_files example_env [py ''lines''] False None
        [py ''c.txt'', py ''b.bin'', py ''a.txt''] ([], [])
       = ([msg_not_exist (py ''c.txt''),
           msg_read_error (py ''b.bin'') (py ''invalid start byte'')],
          Inr [(py ''a.txt'', [Lines 1])])"
    by (simp add: fc fb a dict_update_def)
  have k: "fst ` set [(py ''a.txt'', [Lines (1::int)])] = {py ''a.txt''}" by simp
  from c b rb fc fb run k show ?thesis by blast
qed

text \<open>
  Claim C9. When the list of files left after removing duplicates is empty, \<open>main\<close>
  prints the one line that no matching files were found and stops: nothing else is
  printed, no file is written, and no exception is raised.
\<close>

theorem no_matching_files:
  assumes "set_list env (resolve_files env a) = []"
  shows "main json_dumps env a =
           \<lparr>printed_lines = [py ''Error: No matching files found.''], written = [],
            raised = None\<rparr>"
  using assms by (simp add: main_def)

theorem no_matching_files_witness:
  "set_list example_env
     (resolve_files example_env
        \<lparr>files = [py ''*.md''], mode = [py ''lines''], verbose = True, recursive = False,
         format = py ''text'', output_file = Some (py ''out.txt''), encoding = None,
         ext = None\<rparr>) = []
   \<and> main (\<lambda>results. []) example_env
        \<lparr>files = [py ''*.md''], mode = [py ''lines''], verbose = True, recursive = False,
         format = py ''text'', output_file = Some (py ''out.txt''), encoding = None,
         ext = None\<rparr>
       = \<lparr>printed_lines = [py ''Error: No matching files found.''], written = [],
          raised = None\<rparr>"
proof -
  have e: "set_list example_env
     (resolve_files example_env
        \<lparr>files = [py ''*.md''], mode = [py ''lines''], verbose = True, recursive = False,
         format = py ''text'', output_file = Some (py ''out.txt''), encoding = None,
         ext = None\<rparr>) = []"
    by (simp add: resolve_files_def example_env_def py_def)
  from no_matching_files [OF e, of "\<lambda>results. []"] e show ?thesis by blast
qed

end
